theory Spec2Isabelle
  imports Main "HOL-Library.Word" "HOL-Library.Multiset"
begin

section \<open>Go values shared by the packages\<close>

text \<open>
  A Go pointer is an \<open>option\<close>: \<open>None\<close> is \<open>nil\<close>. Reading a field through a nil
  pointer panics; a function that can do so returns \<open>panic + 'a\<close>.
\<close>

datatype panic = NilPointerDereference

section \<open>apis/duck/v1alpha1: Destination (src/unnamed/part\_000)\<close>

text \<open>
  \<open>corev1.ObjectReference\<close> of the Kubernetes API, with its seven fields in the order of
  the struct declaration (the order in which \<open>checkDisallowedObjectReferenceFields\<close>
  visits them by reflection). \<open>UID\<close> is a string type there.
\<close>

record ObjectReference =
  Kind :: string
  Namespace :: string
  Name :: string
  UID :: string
  APIVersion :: string
  ResourceVersion :: string
  FieldPath :: string

text \<open>
  \<open>apis.URL\<close> is Go's \<open>url.URL\<close>; the validation reads \<open>Scheme\<close> (through
  \<open>IsAbs\<close>) and \<open>Host\<close> only.
\<close>

record URL =
  Scheme :: string
  Host :: string
  Path :: string
  RawQuery :: string

definition IsAbs :: "URL \<Rightarrow> bool" where
  "IsAbs u = (Scheme u \<noteq> '''')"

record Destination =
  Ref :: "ObjectReference option"
  DeprecatedAPIVersion :: string
  DeprecatedKind :: string
  DeprecatedName :: string
  URI :: "URL option"

subsection \<open>Field errors\<close>

text \<open>
  Modelled from the spec: \<open>apis.FieldError\<close> and its constructors (\<open>ErrGeneric\<close>,
  \<open>ErrInvalidValue\<close>, \<open>ErrMissingField\<close>, \<open>ErrDisallowedFields\<close>) and methods
  (\<open>Also\<close>, \<open>ViaField\<close>) belong to package \<open>knative.dev/pkg/apis\<close>, which is not
  under src/. The spec calls the result of the validation "a structured field error".
  A \<open>*apis.FieldError\<close> is modelled as the list of the errors it carries, each with its
  message, field paths and details; the nil pointer is the empty list. Every constructor
  returns one error, \<open>Also\<close> collects the errors of both sides, and \<open>ViaField\<close>
  prefixes the paths.
\<close>

record FieldErrorLeaf =
  Message :: string
  Paths :: "string list"
  Details :: string

type_synonym FieldError = "FieldErrorLeaf list"

definition ErrGeneric :: "string \<Rightarrow> string list \<Rightarrow> FieldError" where
  "ErrGeneric diagnostic fieldPaths =
     [\<lparr>Message = diagnostic, Paths = fieldPaths, Details = ''''\<rparr>]"

definition ErrInvalidValue :: "string \<Rightarrow> string \<Rightarrow> FieldError" where
  "ErrInvalidValue v fieldPath =
     [\<lparr>Message = ''invalid value: '' @ v, Paths = [fieldPath], Details = ''''\<rparr>]"

definition ErrMissingField :: "string list \<Rightarrow> FieldError" where
  "ErrMissingField fieldPaths =
     [\<lparr>Message = ''missing field(s)'', Paths = fieldPaths, Details = ''''\<rparr>]"

definition ErrDisallowedFields :: "string list \<Rightarrow> FieldError" where
  "ErrDisallowedFields fieldPaths =
     [\<lparr>Message = ''must not set the field(s)'', Paths = fieldPaths, Details = ''''\<rparr>]"

definition Also :: "FieldError \<Rightarrow> FieldError \<Rightarrow> FieldError" where
  "Also fe errs = fe @ errs"

definition flatten :: "string \<Rightarrow> string \<Rightarrow> string" where
  "flatten prefix p =
     (if prefix = '''' then p else if p = '''' then prefix else prefix @ ''.'' @ p)"

definition ViaField :: "string \<Rightarrow> FieldError \<Rightarrow> FieldError" where
  "ViaField prefix fe = map (\<lambda>e. e\<lparr>Paths := map (flatten prefix) (Paths e)\<rparr>) fe"

text \<open>\<open>apis.CurrentField\<close>, the empty path.\<close>

definition CurrentField :: string where
  "CurrentField = ''''"

subsection \<open>Object references\<close>

text \<open>
  \<open>checkRequiredObjectReferenceFields\<close>: \<open>errs\<close> starts nil and collects one missing-field
  error for each of name, apiVersion and kind that is empty, in that order.
\<close>

definition checkRequiredObjectReferenceFields :: "ObjectReference \<Rightarrow> FieldError" where
  "checkRequiredObjectReferenceFields f =
     (let errs = [];
          errs = (if Name f = '''' then Also errs (ErrMissingField [''name'']) else errs);
          errs = (if APIVersion f = '''' then Also errs (ErrMissingField [''apiVersion''])
                  else errs);
          errs = (if Kind f = '''' then Also errs (ErrMissingField [''kind'']) else errs)
      in errs)"

text \<open>
  \<open>checkDisallowedObjectReferenceFields\<close>: the loop over the struct's fields skips
  \<open>Name\<close>, \<open>Kind\<close> and \<open>APIVersion\<close> and appends the name of every other field that
  differs from its zero value (the empty string for each of them).
\<close>

definition disallowedFields :: "ObjectReference \<Rightarrow> string list" where
  "disallowedFields f =
     map fst (filter (\<lambda>(fieldName, v). v \<noteq> '''')
       [(''Namespace'', Namespace f), (''UID'', UID f),
        (''ResourceVersion'', ResourceVersion f), (''FieldPath'', FieldPath f)])"

definition checkDisallowedObjectReferenceFields :: "ObjectReference \<Rightarrow> FieldError" where
  "checkDisallowedObjectReferenceFields f =
     (if length (disallowedFields f) > 0
      then map (\<lambda>fe. fe\<lparr>Details := ''only name, apiVersion and kind are supported fields''\<rparr>)
             (ErrDisallowedFields (disallowedFields f))
      else [])"

definition IsValidObjectReference :: "ObjectReference \<Rightarrow> FieldError" where
  "IsValidObjectReference f =
     Also (checkRequiredObjectReferenceFields f) (checkDisallowedObjectReferenceFields f)"

definition deprecatedObjectReference :: "Destination \<Rightarrow> ObjectReference option" where
  "deprecatedObjectReference dest =
     (if DeprecatedAPIVersion dest = '''' \<and> DeprecatedKind dest = '''' \<and> DeprecatedName dest = ''''
      then None
      else Some \<lparr>Kind = DeprecatedKind dest, Namespace = '''', Name = DeprecatedName dest,
                  UID = '''', APIVersion = DeprecatedAPIVersion dest, ResourceVersion = '''',
                  FieldPath = ''''\<rparr>)"

subsection \<open>ValidateDestination\<close>

text \<open>
  The errors collected when the deprecated fields are not allowed
  (the body of \<open>if !allowDeprecatedFields\<close>).
\<close>

definition deprecatedFieldErrors :: "Destination \<Rightarrow> FieldError" where
  "deprecatedFieldErrors dest =
     (let errs = [];
          errs = (if DeprecatedAPIVersion dest \<noteq> ''''
                  then Also errs (ErrInvalidValue
                         ''apiVersion is not allowed here, it's a deprecated value'' ''apiVersion'')
                  else errs);
          errs = (if DeprecatedKind dest \<noteq> ''''
                  then Also errs (ErrInvalidValue
                         ''kind is not allowed here, it's a deprecated value'' ''kind'')
                  else errs);
          errs = (if DeprecatedName dest \<noteq> ''''
                  then Also errs (ErrInvalidValue
                         ''name is not allowed here, it's a deprecated value'' ''name'')
                  else errs)
      in errs)"

text \<open>
  The part of \<open>ValidateDestination\<close> after the deprecated-field gate; \<open>ref\<close> is
  \<open>dest.Ref\<close> when that is set and the deprecated reference otherwise. A test
  \<open>dest.URI != nil && p(dest.URI)\<close> is the \<open>case\<close> on \<open>URI dest\<close> that is false at
  \<open>None\<close>.
\<close>

definition validateRefAndURI :: "Destination \<Rightarrow> FieldError" where
  "validateRefAndURI dest =
     (let dor = deprecatedObjectReference dest in
      if Ref dest \<noteq> None \<and> dor \<noteq> None
      then ErrGeneric ''ref and [apiVersion, kind, name] can't be both present''
             [''[apiVersion, kind, name]'', ''ref'']
      else
        let ref = (if Ref dest \<noteq> None then Ref dest else dor) in
        if ref = None \<and> URI dest = None
        then ErrGeneric ''expected at least one, got none''
               [''[apiVersion, kind, name]'', ''ref'', ''uri'']
        else if ref \<noteq> None \<and> (case URI dest of None \<Rightarrow> False | Some u \<Rightarrow> IsAbs u)
        then ErrGeneric
               ''absolute URI is not allowed when Ref or [apiVersion, kind, name] is present''
               [''[apiVersion, kind, name]'', ''ref'', ''uri'']
        else if ref = None \<and>
                (case URI dest of None \<Rightarrow> False | Some u \<Rightarrow> \<not> IsAbs u \<or> Host u = '''')
        then ErrInvalidValue
               ''relative URI is not allowed when Ref and [apiVersion, kind, name] is absent''
               ''uri''
        else if URI dest = None
        then (case ref of
                None \<Rightarrow> []
              | Some r \<Rightarrow>
                  if Ref dest \<noteq> None then ViaField ''ref'' (IsValidObjectReference r)
                  else IsValidObjectReference r)
        else [])"

definition ValidateDestination :: "Destination \<Rightarrow> bool \<Rightarrow> FieldError" where
  "ValidateDestination dest allowDeprecatedFields =
     (if \<not> allowDeprecatedFields \<and> deprecatedFieldErrors dest \<noteq> []
      then deprecatedFieldErrors dest
      else validateRefAndURI dest)"

definition Validate :: "Destination option \<Rightarrow> FieldError" where
  "Validate dest =
     (case dest of None \<Rightarrow> [] | Some d \<Rightarrow> ViaField CurrentField (ValidateDestination d True))"

definition ValidateDisallowDeprecated :: "Destination option \<Rightarrow> FieldError" where
  "ValidateDisallowDeprecated dest =
     (case dest of None \<Rightarrow> [] | Some d \<Rightarrow> ViaField CurrentField (ValidateDestination d False))"

definition GetRef :: "Destination option \<Rightarrow> ObjectReference option" where
  "GetRef dest =
     (case dest of
        None \<Rightarrow> None
      | Some d \<Rightarrow>
          if Ref d \<noteq> None then Ref d
          else (case deprecatedObjectReference d of Some ref \<Rightarrow> Some ref | None \<Rightarrow> None))"

section \<open>apis/duck/v1: Source (src/apis/duck/v1/source\_types.go)\<close>

text \<open>\<open>ScalerClass\<close> is a string type; \<open>int32\<close> is a 32-bit word read by \<open>sint\<close>.\<close>

type_synonym ScalerClass = string

definition ScalerClassKeda :: ScalerClass where
  "ScalerClassKeda = ''keda''"

definition ScalerClassKsvc :: ScalerClass where
  "ScalerClassKsvc = ''ksvc''"

definition defaultScalerClass :: ScalerClass where
  "defaultScalerClass = ScalerClassKeda"

definition defaultMinScale :: "32 word" where
  "defaultMinScale = 0"

definition defaultMaxScale :: "32 word" where
  "defaultMaxScale = 1"

record ScalerSpec =
  Class :: ScalerClass
  MinScale :: "32 word option"
  MaxScale :: "32 word option"
  Options :: "string \<rightharpoonup> string"

text \<open>
  \<open>SetDefault\<close> writes through its pointer receiver; the model returns the receiver
  after the call. A nil receiver returns at once.
\<close>

definition SetDefault :: "ScalerSpec option \<Rightarrow> ScalerSpec option" where
  "SetDefault ss =
     (case ss of
        None \<Rightarrow> None
      | Some s \<Rightarrow>
          let s = (if Class s = '''' then s\<lparr>Class := defaultScalerClass\<rparr> else s);
              s = (if MinScale s = None then s\<lparr>MinScale := Some defaultMinScale\<rparr> else s);
              s = (if MaxScale s = None then s\<lparr>MaxScale := Some defaultMaxScale\<rparr> else s)
          in Some s)"

text \<open>
  Modelled from the spec: \<open>apis.Condition\<close>, the condition types \<open>apis.ConditionReady\<close>
  and \<open>apis.ConditionSucceeded\<close>, and \<open>Condition.IsTrue\<close> belong to package
  \<open>knative.dev/pkg/apis\<close>, which is not under src/. A condition has a type and a status
  (a string, \<open>True\<close>, \<open>False\<close> or \<open>Unknown\<close>); the two "happy" types are named
  \<open>Ready\<close> and \<open>Succeeded\<close>, and a condition is true when its status is \<open>True\<close>.
\<close>

record Condition =
  Type :: string
  Status :: string
  Severity :: string
  Reason :: string

definition ConditionReady :: string where
  "ConditionReady = ''Ready''"

definition ConditionSucceeded :: string where
  "ConditionSucceeded = ''Succeeded''"

definition IsTrue :: "Condition \<Rightarrow> bool" where
  "IsTrue c = (Status c = ''True'')"

text \<open>
  \<open>SourceStatus\<close> embeds the duck \<open>Status\<close> (observed generation and conditions) and
  adds \<open>SinkURI\<close>.
\<close>

record SourceStatus =
  ObservedGeneration :: "64 word"
  Conditions :: "Condition list"
  SinkURI :: "URL option"

text \<open>
  The loop of \<open>IsReady\<close>: the first condition of type Ready or Succeeded returns from
  the function; running off the list returns false.
\<close>

fun IsReady_loop :: "Condition list \<Rightarrow> bool" where
  "IsReady_loop [] = False"
| "IsReady_loop (c # cs) =
     (if Type c = ConditionReady \<or> Type c = ConditionSucceeded then IsTrue c
      else IsReady_loop cs)"

text \<open>\<open>ss.Conditions\<close> reads through the receiver, so a nil receiver panics.\<close>

definition IsReady :: "SourceStatus option \<Rightarrow> panic + bool" where
  "IsReady ss =
     (case ss of
        None \<Rightarrow> Inl NilPointerDereference
      | Some s \<Rightarrow> Inr (IsReady_loop (Conditions s)))"

section \<open>metrics: the Stackdriver exporter's dispatch\<close>

subsection \<open>Go's path.Join\<close>

text \<open>
  \<open>path.Join\<close> of Go's standard library drops the leading empty elements, joins the rest
  with a slash and returns \<open>path.Clean\<close> of the result (the empty string when every
  element is empty). \<open>Clean\<close> is modelled element by element: empty elements and \<open>.\<close>
  are dropped, \<open>..\<close> removes the element before it when there is one that is not
  itself \<open>..\<close>, is kept at the front of an unrooted path and dropped at the root; an
  empty result is \<open>.\<close>.
\<close>

fun splitSlash :: "string \<Rightarrow> string list" where
  "splitSlash [] = [[]]"
| "splitSlash (c # cs) =
     (if c = CHR ''/'' then [] # splitSlash cs
      else (case splitSlash cs of [] \<Rightarrow> [[c]] | w # ws \<Rightarrow> (c # w) # ws))"

fun joinSlash :: "string list \<Rightarrow> string" where
  "joinSlash [] = []"
| "joinSlash [e] = e"
| "joinSlash (e # es) = e @ ''/'' @ joinSlash es"

definition cleanStep :: "bool \<Rightarrow> string list \<Rightarrow> string \<Rightarrow> string list" where
  "cleanStep rooted out e =
     (if e = '''' \<or> e = ''.'' then out
      else if e = ''..'' then
        (if out \<noteq> [] \<and> last out \<noteq> ''..'' then butlast out
         else if \<not> rooted then out @ [''..'']
         else out)
      else out @ [e])"

definition path_Clean :: "string \<Rightarrow> string" where
  "path_Clean p =
     (if p = '''' then ''.''
      else
        let rooted = (hd p = CHR ''/'');
            out = foldl (cleanStep rooted) [] (splitSlash p);
            s = (if rooted then ''/'' else '''') @ joinSlash out
        in if s = '''' then ''.'' else s)"

definition path_Join :: "string list \<Rightarrow> string" where
  "path_Join elem =
     (case dropWhile (\<lambda>e. e = '''') elem of
        [] \<Rightarrow> ''''
      | e # es \<Rightarrow> path_Clean (joinSlash (e # es)))"

subsection \<open>OpenCensus views and tags\<close>

text \<open>
  A \<open>tag.Tag\<close> is a key and a value; \<open>Key\<close> stands for \<open>t.Key.Name()\<close>. Of a
  \<open>view.View\<close> the dispatch reads \<open>view.Measure.Name()\<close> only; the view is passed by
  pointer and its \<open>Measure\<close> is an interface value, and both can be nil.
\<close>

record Tag =
  Key :: string
  Value :: string

record Measure =
  MeasureName :: string
  MeasureDescription :: string

record View =
  ViewDescription :: string
  Measure :: "Measure option"
  TagKeys :: "string list"

definition viewMeasureName :: "View option \<Rightarrow> panic + string" where
  "viewMeasureName v =
     (case v of
        None \<Rightarrow> Inl NilPointerDereference
      | Some w \<Rightarrow>
          (case Measure w of
             None \<Rightarrow> Inl NilPointerDereference
           | Some m \<Rightarrow> Inr (MeasureName m)))"

subsection \<open>Constants of the metricskey packages\<close>

text \<open>
  The label constants of package \<open>metricskey\<close>
  (\<open>LabelProject\<close>, \<open>LabelLocation\<close>, \<open>LabelClusterName\<close>, \<open>LabelNamespaceName\<close>),
  those of \<open>metricskey/serving\<close> (\<open>LabelServiceName\<close>, \<open>LabelConfigurationName\<close>,
  \<open>LabelRevisionName\<close>, and the sets \<open>KnativeRevisionLabels\<close> and
  \<open>KnativeRevisionMetrics\<close>) and the two trigger filter labels of \<open>metricskey/eventing\<close>
  (\<open>LabelTriggerTypeFilterAttribute\<close>, \<open>LabelTriggerSourceFilterAttribute\<close>) are used by
  the code but declared nowhere under src/, and the spec does not give their values. They
  are parameters of the model: every function that reads one takes this record.
\<close>

record metricskey =
  LabelProject :: string
  LabelLocation :: string
  LabelClusterName :: string
  LabelNamespaceName :: string
  LabelServiceName :: string
  LabelConfigurationName :: string
  LabelRevisionName :: string
  KnativeRevisionLabels :: "string set"
  KnativeRevisionMetrics :: "string set"
  LabelTriggerTypeFilterAttribute :: string
  LabelTriggerSourceFilterAttribute :: string

text \<open>The constants of \<open>metricskey/eventing\<close> that src/ declares.\<close>

definition ResourceTypeKnativeTrigger :: string where
  "ResourceTypeKnativeTrigger = ''knative_trigger''"

definition ResourceTypeKnativeBroker :: string where
  "ResourceTypeKnativeBroker = ''knative_broker''"

definition ResourceTypeKnativeImporter :: string where
  "ResourceTypeKnativeImporter = ''knative_importer''"

definition LabelTriggerName :: string where
  "LabelTriggerName = ''trigger_name''"

definition LabelBrokerName :: string where
  "LabelBrokerName = ''broker_name''"

definition LabelImporterName :: string where
  "LabelImporterName = ''importer_name''"

definition LabelImporterKind :: string where
  "LabelImporterKind = ''importer_kind''"

definition KnativeTriggerLabels :: "metricskey \<Rightarrow> string set" where
  "KnativeTriggerLabels mk =
     {LabelProject mk, LabelLocation mk, LabelClusterName mk, LabelNamespaceName mk,
      LabelTriggerName, LabelBrokerName}"

definition KnativeTriggerMetrics :: "string set" where
  "KnativeTriggerMetrics =
     {''knative.dev/eventing/trigger/event_count'',
      ''knative.dev/eventing/trigger/event_process_latencies'',
      ''knative.dev/eventing/trigger/event_dispatch_latencies''}"

definition KnativeBrokerLabels :: "metricskey \<Rightarrow> string set" where
  "KnativeBrokerLabels mk =
     {LabelProject mk, LabelLocation mk, LabelClusterName mk, LabelNamespaceName mk,
      LabelBrokerName}"

definition KnativeBrokerMetrics :: "string set" where
  "KnativeBrokerMetrics = {''knative.dev/eventing/broker/event_count''}"

definition KnativeImporterLabels :: "metricskey \<Rightarrow> string set" where
  "KnativeImporterLabels mk =
     {LabelProject mk, LabelLocation mk, LabelClusterName mk, LabelNamespaceName mk,
      LabelImporterName, LabelImporterKind}"

definition KnativeImporterMetrics :: "string set" where
  "KnativeImporterMetrics = {''knative.dev/eventing/importer/event_count''}"

subsection \<open>Package monitoredresources\<close>

text \<open>
  Modelled from the spec: \<open>GcpMetadata\<close>, \<open>Global\<close>, \<open>GetTagsMap\<close> and
  \<open>ValueOrUnknown\<close> belong to package \<open>knative.dev/pkg/metrics/monitoredresources\<close>,
  which is not under src/. The spec says that the labels which are not metadata "come from
  the metric's tag set, defaulting to "unknown" if absent", and its table gives the
  fallback the resource type \<open>global\<close> and no labels. \<open>GetTagsMap\<close> is the map from each
  tag's key to its value, filled in the order of the list; \<open>ValueOrUnknown\<close> looks a key up
  in it. The fields of \<open>GcpMetadata\<close> are the three that the code under src/ reads.
\<close>

record GcpMetadata =
  gm_Project :: string
  gm_Location :: string
  gm_Cluster :: string

definition ValueUnknown :: string where
  "ValueUnknown = ''unknown''"

definition GetTagsMap :: "Tag list \<Rightarrow> (string \<rightharpoonup> string)" where
  "GetTagsMap tags = foldl (\<lambda>tagsMap t. tagsMap(Key t \<mapsto> Value t)) Map.empty tags"

definition ValueOrUnknown :: "string \<Rightarrow> (string \<rightharpoonup> string) \<Rightarrow> string" where
  "ValueOrUnknown k tagsMap = (case tagsMap k of Some v \<Rightarrow> v | None \<Rightarrow> ValueUnknown)"

definition Global_MonitoredResource :: "string \<times> (string \<rightharpoonup> string)" where
  "Global_MonitoredResource = (''global'', Map.empty)"

subsection \<open>Monitored resources (monitoredresources/eventing and monitoredresources/serving)\<close>

record KnativeTrigger =
  kt_Project :: string
  kt_Location :: string
  kt_ClusterName :: string
  kt_NamespaceName :: string
  kt_TriggerName :: string
  kt_BrokerName :: string
  kt_TypeFilterAttribute :: string
  kt_SourceFilterAttribute :: string

record KnativeBroker =
  kb_Project :: string
  kb_Location :: string
  kb_ClusterName :: string
  kb_NamespaceName :: string
  kb_BrokerName :: string

record KnativeImporter =
  ki_Project :: string
  ki_Location :: string
  ki_ClusterName :: string
  ki_NamespaceName :: string
  ki_ImporterName :: string
  ki_ImporterKind :: string

record KnativeRevision =
  kr_Project :: string
  kr_Location :: string
  kr_ClusterName :: string
  kr_NamespaceName :: string
  kr_ServiceName :: string
  kr_ConfigurationName :: string
  kr_RevisionName :: string

text \<open>
  A value of \<open>monitoredresource.Interface\<close> is one of the four resources or
  \<open>monitoredresources.Global\<close>.
\<close>

datatype Interface =
  Revision KnativeRevision
| Broker KnativeBroker
| Trigger KnativeTrigger
| Importer KnativeImporter
| Global

definition KnativeTrigger_MonitoredResource ::
  "metricskey \<Rightarrow> KnativeTrigger \<Rightarrow> string \<times> (string \<rightharpoonup> string)" where
  "KnativeTrigger_MonitoredResource mk kt =
     (''knative_trigger'',
      [LabelProject mk \<mapsto> kt_Project kt,
       LabelLocation mk \<mapsto> kt_Location kt,
       LabelClusterName mk \<mapsto> kt_ClusterName kt,
       LabelNamespaceName mk \<mapsto> kt_NamespaceName kt,
       LabelTriggerName \<mapsto> kt_TriggerName kt,
       LabelBrokerName \<mapsto> kt_BrokerName kt,
       LabelTriggerTypeFilterAttribute mk \<mapsto> kt_TypeFilterAttribute kt,
       LabelTriggerSourceFilterAttribute mk \<mapsto> kt_SourceFilterAttribute kt])"

definition KnativeBroker_MonitoredResource ::
  "metricskey \<Rightarrow> KnativeBroker \<Rightarrow> string \<times> (string \<rightharpoonup> string)" where
  "KnativeBroker_MonitoredResource mk kb =
     (''knative_broker'',
      [LabelProject mk \<mapsto> kb_Project kb,
       LabelLocation mk \<mapsto> kb_Location kb,
       LabelClusterName mk \<mapsto> kb_ClusterName kb,
       LabelNamespaceName mk \<mapsto> kb_NamespaceName kb,
       LabelBrokerName \<mapsto> kb_BrokerName kb])"

definition KnativeImporter_MonitoredResource ::
  "metricskey \<Rightarrow> KnativeImporter \<Rightarrow> string \<times> (string \<rightharpoonup> string)" where
  "KnativeImporter_MonitoredResource mk ki =
     (''knative_importer'',
      [LabelProject mk \<mapsto> ki_Project ki,
       LabelLocation mk \<mapsto> ki_Location ki,
       LabelClusterName mk \<mapsto> ki_ClusterName ki,
       LabelNamespaceName mk \<mapsto> ki_NamespaceName ki,
       LabelImporterName \<mapsto> ki_ImporterName ki,
       LabelImporterKind \<mapsto> ki_ImporterKind ki])"

definition KnativeRevision_MonitoredResource ::
  "metricskey \<Rightarrow> KnativeRevision \<Rightarrow> string \<times> (string \<rightharpoonup> string)" where
  "KnativeRevision_MonitoredResource mk kr =
     (''knative_revision'',
      [LabelProject mk \<mapsto> kr_Project kr,
       LabelLocation mk \<mapsto> kr_Location kr,
       LabelClusterName mk \<mapsto> kr_ClusterName kr,
       LabelNamespaceName mk \<mapsto> kr_NamespaceName kr,
       LabelServiceName mk \<mapsto> kr_ServiceName kr,
       LabelConfigurationName mk \<mapsto> kr_ConfigurationName kr,
       LabelRevisionName mk \<mapsto> kr_RevisionName kr])"

text \<open>The method \<open>MonitoredResource()\<close>, dispatched on the dynamic type.\<close>

fun MonitoredResource :: "metricskey \<Rightarrow> Interface \<Rightarrow> string \<times> (string \<rightharpoonup> string)" where
  "MonitoredResource mk (Revision kr) = KnativeRevision_MonitoredResource mk kr"
| "MonitoredResource mk (Broker kb) = KnativeBroker_MonitoredResource mk kb"
| "MonitoredResource mk (Trigger kt) = KnativeTrigger_MonitoredResource mk kt"
| "MonitoredResource mk (Importer ki) = KnativeImporter_MonitoredResource mk ki"
| "MonitoredResource mk Global = Global_MonitoredResource"

text \<open>
  Each \<open>GetKnative...MonitoredResource\<close> reads \<open>gm.Project\<close> through the pointer
  \<open>gm\<close> (a nil \<open>gm\<close> panics), takes the other labels from the tags, and keeps in
  \<open>newTags\<close> the tags whose key is not in the resource's label set, in the order of the
  loop over \<open>tags\<close>. The view argument is not read.
\<close>

definition GetKnativeBrokerMonitoredResource ::
  "metricskey \<Rightarrow> View option \<Rightarrow> Tag list \<Rightarrow> GcpMetadata option
     \<Rightarrow> panic + (Tag list \<times> Interface)" where
  "GetKnativeBrokerMonitoredResource mk v tags gm =
     (let tagsMap = GetTagsMap tags in
      case gm of
        None \<Rightarrow> Inl NilPointerDereference
      | Some g \<Rightarrow>
          let kb = \<lparr>kb_Project = gm_Project g,
                    kb_Location = gm_Location g,
                    kb_ClusterName = gm_Cluster g,
                    kb_NamespaceName = ValueOrUnknown (LabelNamespaceName mk) tagsMap,
                    kb_BrokerName = ValueOrUnknown LabelBrokerName tagsMap\<rparr>;
              newTags = filter (\<lambda>t. Key t \<notin> KnativeBrokerLabels mk) tags
          in Inr (newTags, Broker kb))"

definition GetKnativeTriggerMonitoredResource ::
  "metricskey \<Rightarrow> View option \<Rightarrow> Tag list \<Rightarrow> GcpMetadata option
     \<Rightarrow> panic + (Tag list \<times> Interface)" where
  "GetKnativeTriggerMonitoredResource mk v tags gm =
     (let tagsMap = GetTagsMap tags in
      case gm of
        None \<Rightarrow> Inl NilPointerDereference
      | Some g \<Rightarrow>
          let kt = \<lparr>kt_Project = gm_Project g,
                    kt_Location = gm_Location g,
                    kt_ClusterName = gm_Cluster g,
                    kt_NamespaceName = ValueOrUnknown (LabelNamespaceName mk) tagsMap,
                    kt_TriggerName = ValueOrUnknown LabelTriggerName tagsMap,
                    kt_BrokerName = ValueOrUnknown LabelBrokerName tagsMap,
                    kt_TypeFilterAttribute =
                      ValueOrUnknown (LabelTriggerTypeFilterAttribute mk) tagsMap,
                    kt_SourceFilterAttribute =
                      ValueOrUnknown (LabelTriggerSourceFilterAttribute mk) tagsMap\<rparr>;
              newTags = filter (\<lambda>t. Key t \<notin> KnativeTriggerLabels mk) tags
          in Inr (newTags, Trigger kt))"

definition GetKnativeImporterMonitoredResource ::
  "metricskey \<Rightarrow> View option \<Rightarrow> Tag list \<Rightarrow> GcpMetadata option
     \<Rightarrow> panic + (Tag list \<times> Interface)" where
  "GetKnativeImporterMonitoredResource mk v tags gm =
     (let tagsMap = GetTagsMap tags in
      case gm of
        None \<Rightarrow> Inl NilPointerDereference
      | Some g \<Rightarrow>
          let ki = \<lparr>ki_Project = gm_Project g,
                    ki_Location = gm_Location g,
                    ki_ClusterName = gm_Cluster g,
                    ki_NamespaceName = ValueOrUnknown (LabelNamespaceName mk) tagsMap,
                    ki_ImporterName = ValueOrUnknown LabelImporterName tagsMap,
                    ki_ImporterKind = ValueOrUnknown LabelImporterKind tagsMap\<rparr>;
              newTags = filter (\<lambda>t. Key t \<notin> KnativeImporterLabels mk) tags
          in Inr (newTags, Importer ki))"

definition GetKnativeRevisionMonitoredResource ::
  "metricskey \<Rightarrow> View option \<Rightarrow> Tag list \<Rightarrow> GcpMetadata option
     \<Rightarrow> panic + (Tag list \<times> Interface)" where
  "GetKnativeRevisionMonitoredResource mk v tags gm =
     (let tagsMap = GetTagsMap tags in
      case gm of
        None \<Rightarrow> Inl NilPointerDereference
      | Some g \<Rightarrow>
          let kr = \<lparr>kr_Project = gm_Project g,
                    kr_Location = gm_Location g,
                    kr_ClusterName = gm_Cluster g,
                    kr_NamespaceName = ValueOrUnknown (LabelNamespaceName mk) tagsMap,
                    kr_ServiceName = ValueOrUnknown (LabelServiceName mk) tagsMap,
                    kr_ConfigurationName = ValueOrUnknown (LabelConfigurationName mk) tagsMap,
                    kr_RevisionName = ValueOrUnknown (LabelRevisionName mk) tagsMap\<rparr>;
              newTags = filter (\<lambda>t. Key t \<notin> KnativeRevisionLabels mk) tags
          in Inr (newTags, Revision kr))"

subsection \<open>stackdriver\_exporter.go\<close>

definition customMetricTypePrefix :: string where
  "customMetricTypePrefix = ''custom.googleapis.com/knative.dev''"

definition getGlobalMonitoredResource ::
  "View option \<Rightarrow> Tag list \<Rightarrow> Tag list \<times> Interface" where
  "getGlobalMonitoredResource v tags = (tags, Global)"

text \<open>
  The closure returned by \<open>getMonitoredResourceFunc metricTypePrefix gm\<close>, applied to
  \<open>view\<close> and \<open>tags\<close>. The branch of the importer metrics calls
  \<open>GetKnativeTriggerMonitoredResource\<close>, as line 95 of the source does.
\<close>

definition getMonitoredResourceFunc ::
  "metricskey \<Rightarrow> string \<Rightarrow> GcpMetadata option \<Rightarrow> View option \<Rightarrow> Tag list
     \<Rightarrow> panic + (Tag list \<times> Interface)" where
  "getMonitoredResourceFunc mk metricTypePrefix gm view tags =
     (case viewMeasureName view of
        Inl p \<Rightarrow> Inl p
      | Inr name \<Rightarrow>
          let metricType = path_Join [metricTypePrefix, name] in
          if metricType \<in> KnativeRevisionMetrics mk
          then GetKnativeRevisionMonitoredResource mk view tags gm
          else if metricType \<in> KnativeBrokerMetrics
          then GetKnativeBrokerMonitoredResource mk view tags gm
          else if metricType \<in> KnativeTriggerMetrics
          then GetKnativeTriggerMonitoredResource mk view tags gm
          else if metricType \<in> KnativeImporterMetrics
          then GetKnativeTriggerMonitoredResource mk view tags gm
          else Inr (getGlobalMonitoredResource view tags))"

definition getMetricTypeFunc ::
  "metricskey \<Rightarrow> string \<Rightarrow> string \<Rightarrow> View option \<Rightarrow> panic + string" where
  "getMetricTypeFunc mk metricTypePrefix customPrefix view =
     (case viewMeasureName view of
        Inl p \<Rightarrow> Inl p
      | Inr name \<Rightarrow>
          let metricType = path_Join [metricTypePrefix, name];
              inServing = (metricType \<in> KnativeRevisionMetrics mk);
              inEventing = (metricType \<in> KnativeBrokerMetrics \<or>
                            metricType \<in> KnativeTriggerMetrics \<or>
                            metricType \<in> KnativeImporterMetrics)
          in if inServing \<or> inEventing then Inr metricType
             else Inr (path_Join [customPrefix, name]))"

subsection \<open>A chain of membership tests in any order\<close>

text \<open>
  The spec calls the dispatch an order-independent mapping. To compare the code with its
  chain of tests in another order, \<open>firstMatch\<close> runs a list of tests (a set of metric
  types and the result of its branch) in the order of the list and returns the result of
  the first test that holds, or the fallback; \<open>anyMatch\<close> is the disjunction of the tests
  in the order of the list.
\<close>

fun firstMatch :: "(string set \<times> 'a) list \<Rightarrow> 'a \<Rightarrow> string \<Rightarrow> 'a" where
  "firstMatch [] d metricType = d"
| "firstMatch ((s, r) # ts) d metricType =
     (if metricType \<in> s then r else firstMatch ts d metricType)"

fun anyMatch :: "string set list \<Rightarrow> string \<Rightarrow> bool" where
  "anyMatch [] metricType = False"
| "anyMatch (s # ss) metricType = (metricType \<in> s \<or> anyMatch ss metricType)"

section \<open>Example inputs\<close>

text \<open>Destinations and specs at which the theorems below are instantiated.\<close>

definition objRef :: ObjectReference where
  "objRef = \<lparr>Kind = ''Service'', Namespace = '''', Name = ''sink'', UID = '''',
             APIVersion = ''v1'', ResourceVersion = '''', FieldPath = ''''\<rparr>"

definition destRef :: Destination where
  "destRef = \<lparr>Ref = Some objRef, DeprecatedAPIVersion = '''', DeprecatedKind = '''',
              DeprecatedName = '''', URI = None\<rparr>"

definition destBoth :: Destination where
  "destBoth = \<lparr>Ref = Some objRef, DeprecatedAPIVersion = '''', DeprecatedKind = '''',
               DeprecatedName = ''sink'', URI = None\<rparr>"

definition destNone :: Destination where
  "destNone = \<lparr>Ref = None, DeprecatedAPIVersion = '''', DeprecatedKind = '''',
               DeprecatedName = '''', URI = None\<rparr>"

definition destDeprecated :: Destination where
  "destDeprecated = \<lparr>Ref = None, DeprecatedAPIVersion = ''v1'', DeprecatedKind = ''Service'',
                     DeprecatedName = ''sink'', URI = None\<rparr>"

definition destKindOnly :: Destination where
  "destKindOnly = \<lparr>Ref = None, DeprecatedAPIVersion = '''', DeprecatedKind = ''Service'',
                   DeprecatedName = '''', URI = None\<rparr>"

definition scalerSet :: ScalerSpec where
  "scalerSet = \<lparr>Class = ''ksvc'', MinScale = Some 2, MaxScale = Some 5,
                Options = [''myoption'' \<mapsto> ''myoptionvalue'']\<rparr>"

definition condition :: "string \<Rightarrow> string \<Rightarrow> Condition" where
  "condition t s = \<lparr>Type = t, Status = s, Severity = '''', Reason = ''''\<rparr>"

definition statusReady :: SourceStatus where
  "statusReady =
     \<lparr>ObservedGeneration = 42,
      Conditions = [condition ''SinkProvided'' ''False'', condition ''Ready'' ''True'',
                    condition ''Succeeded'' ''False''],
      SinkURI = None\<rparr>"

definition statusNoHappy :: SourceStatus where
  "statusNoHappy =
     \<lparr>ObservedGeneration = 42,
      Conditions = [condition ''SinkProvided'' ''True'', condition ''ScalerProvided'' ''True''],
      SinkURI = None\<rparr>"

text \<open>
  Values for the constants that src/ does not declare, named as the labels they stand for
  (the trigger filter labels as \<open>trigger_filter_type\<close> and \<open>trigger_filter_source\<close>),
  with the revision label set holding the seven labels of \<open>KnativeRevision\<close> and two
  serving metric types in \<open>KnativeRevisionMetrics\<close>.
\<close>

definition exampleKeys :: metricskey where
  "exampleKeys =
     \<lparr>LabelProject = ''project'',
      LabelLocation = ''location'',
      LabelClusterName = ''cluster_name'',
      LabelNamespaceName = ''namespace_name'',
      LabelServiceName = ''service_name'',
      LabelConfigurationName = ''configuration_name'',
      LabelRevisionName = ''revision_name'',
      KnativeRevisionLabels =
        {''project'', ''location'', ''cluster_name'', ''namespace_name'', ''service_name'',
         ''configuration_name'', ''revision_name''},
      KnativeRevisionMetrics =
        {''knative.dev/serving/activator/request_count'',
         ''knative.dev/serving/autoscaler/desired_pods''},
      LabelTriggerTypeFilterAttribute = ''trigger_filter_type'',
      LabelTriggerSourceFilterAttribute = ''trigger_filter_source''\<rparr>"

text \<open>The metadata of the exporter's tests, and a view over a measure of a given name.\<close>

definition testGcpMetadata :: GcpMetadata where
  "testGcpMetadata =
     \<lparr>gm_Project = ''test-project'', gm_Location = ''test-location'',
      gm_Cluster = ''test-cluster''\<rparr>"

definition testView :: "string \<Rightarrow> View" where
  "testView metricName =
     \<lparr>ViewDescription = ''Test View'',
      Measure = Some \<lparr>MeasureName = metricName, MeasureDescription = ''Test Measure''\<rparr>,
      TagKeys = []\<rparr>"

definition tg :: "string \<Rightarrow> string \<Rightarrow> Tag" where
  "tg k v = \<lparr>Key = k, Value = v\<rparr>"

definition revisionTags :: "Tag list" where
  "revisionTags =
     [tg ''namespace_name'' ''test-ns'', tg ''service_name'' ''test-service'',
      tg ''route_name'' ''test-route'', tg ''revision_name'' ''test-revision'']"

definition brokerTags :: "Tag list" where
  "brokerTags =
     [tg ''namespace_name'' ''test-ns'', tg ''route_name'' ''test-route'',
      tg ''broker_name'' ''test-broker'']"

definition triggerTags :: "Tag list" where
  "triggerTags =
     [tg ''namespace_name'' ''test-ns'', tg ''trigger_name'' ''test-trigger'',
      tg ''broker_name'' ''test-broker'', tg ''trigger_filter_type'' ''dev.knative.foo'',
      tg ''trigger_filter_source'' ''test-source'']"

definition importerTags :: "Tag list" where
  "importerTags =
     [tg ''namespace_name'' ''test-ns'', tg ''importer_name'' ''test-importer'',
      tg ''importer_kind'' ''test-kind'']"

section \<open>Destination: validation and GetRef\<close>

lemma deprecatedObjectReference_None_iff:
  "deprecatedObjectReference dest = None \<longleftrightarrow>
     DeprecatedAPIVersion dest = '''' \<and> DeprecatedKind dest = '''' \<and> DeprecatedName dest = ''''"
  by (simp add: deprecatedObjectReference_def)

lemma deprecatedFieldErrors_Nil_iff:
  "deprecatedFieldErrors dest = [] \<longleftrightarrow>
     DeprecatedAPIVersion dest = '''' \<and> DeprecatedKind dest = '''' \<and> DeprecatedName dest = ''''"
  by (simp add: deprecatedFieldErrors_def Also_def ErrInvalidValue_def Let_def)

lemma IsValidObjectReference_Nil_iff:
  "IsValidObjectReference f = [] \<longleftrightarrow>
     Name f \<noteq> '''' \<and> APIVersion f \<noteq> '''' \<and> Kind f \<noteq> '''' \<and>
     Namespace f = '''' \<and> UID f = '''' \<and> ResourceVersion f = '''' \<and> FieldPath f = ''''"
  by (auto simp: IsValidObjectReference_def checkRequiredObjectReferenceFields_def
      checkDisallowedObjectReferenceFields_def disallowedFields_def Also_def
      ErrMissingField_def ErrDisallowedFields_def Let_def)

lemma ViaField_Nil_iff: "ViaField p fe = [] \<longleftrightarrow> fe = []"
  by (simp add: ViaField_def)

text \<open>
  Claim C6, as the code has it. \<open>ValidateDestination\<close> returns an error (a non-nil
  result) when \<open>Ref\<close> is set together with any deprecated field, and when \<open>Ref\<close>, the
  three deprecated fields and \<open>URI\<close> are all unset; both hold for either value of
  \<open>allowDeprecatedFields\<close>. With \<open>URI\<close> nil it returns nil when \<open>Ref\<close> alone is set,
  carries name, apiVersion and kind and sets no other field of the object reference; and,
  when deprecated fields are allowed, when \<open>Ref\<close> is nil and the three deprecated fields
  are all non-empty.
\<close>

theorem ValidateDestination_presence_and_exclusion:
  "(Ref dest \<noteq> None \<and>
      (DeprecatedAPIVersion dest \<noteq> '''' \<or> DeprecatedKind dest \<noteq> '''' \<or> DeprecatedName dest \<noteq> '''')
      \<longrightarrow> ValidateDestination dest allowDeprecatedFields \<noteq> []) \<and>
   (Ref dest = None \<and> DeprecatedAPIVersion dest = '''' \<and> DeprecatedKind dest = '''' \<and>
      DeprecatedName dest = '''' \<and> URI dest = None
      \<longrightarrow> ValidateDestination dest allowDeprecatedFields \<noteq> []) \<and>
   (Ref dest = Some r \<and> DeprecatedAPIVersion dest = '''' \<and> DeprecatedKind dest = '''' \<and>
      DeprecatedName dest = '''' \<and> URI dest = None \<and>
      Name r \<noteq> '''' \<and> APIVersion r \<noteq> '''' \<and> Kind r \<noteq> '''' \<and>
      Namespace r = '''' \<and> UID r = '''' \<and> ResourceVersion r = '''' \<and> FieldPath r = ''''
      \<longrightarrow> ValidateDestination dest allowDeprecatedFields = []) \<and>
   (Ref dest = None \<and> DeprecatedAPIVersion dest \<noteq> '''' \<and> DeprecatedKind dest \<noteq> '''' \<and>
      DeprecatedName dest \<noteq> '''' \<and> URI dest = None
      \<longrightarrow> ValidateDestination dest True = [])"
proof (intro conjI impI)
  assume "Ref dest \<noteq> None \<and>
      (DeprecatedAPIVersion dest \<noteq> '''' \<or> DeprecatedKind dest \<noteq> '''' \<or> DeprecatedName dest \<noteq> '''')"
  then show "ValidateDestination dest allowDeprecatedFields \<noteq> []"
    by (auto simp: ValidateDestination_def validateRefAndURI_def Let_def ErrGeneric_def
        deprecatedObjectReference_None_iff)
next
  assume "Ref dest = None \<and> DeprecatedAPIVersion dest = '''' \<and> DeprecatedKind dest = '''' \<and>
      DeprecatedName dest = '''' \<and> URI dest = None"
  then show "ValidateDestination dest allowDeprecatedFields \<noteq> []"
    by (simp add: ValidateDestination_def validateRefAndURI_def Let_def ErrGeneric_def
        deprecatedObjectReference_def deprecatedFieldErrors_Nil_iff)
next
  assume a: "Ref dest = Some r \<and> DeprecatedAPIVersion dest = '''' \<and> DeprecatedKind dest = '''' \<and>
      DeprecatedName dest = '''' \<and> URI dest = None \<and>
      Name r \<noteq> '''' \<and> APIVersion r \<noteq> '''' \<and> Kind r \<noteq> '''' \<and>
      Namespace r = '''' \<and> UID r = '''' \<and> ResourceVersion r = '''' \<and> FieldPath r = ''''"
  then have "IsValidObjectReference r = []"
    by (simp add: IsValidObjectReference_Nil_iff)
  with a show "ValidateDestination dest allowDeprecatedFields = []"
    by (simp add: ValidateDestination_def validateRefAndURI_def Let_def
        deprecatedObjectReference_def deprecatedFieldErrors_Nil_iff ViaField_Nil_iff)
next
  assume a: "Ref dest = None \<and> DeprecatedAPIVersion dest \<noteq> '''' \<and> DeprecatedKind dest \<noteq> '''' \<and>
      DeprecatedName dest \<noteq> '''' \<and> URI dest = None"
  then obtain r where r: "deprecatedObjectReference dest = Some r" "IsValidObjectReference r = []"
    by (simp add: deprecatedObjectReference_def IsValidObjectReference_Nil_iff)
  with a show "ValidateDestination dest True = []"
    by (simp add: ValidateDestination_def validateRefAndURI_def Let_def)
qed

text \<open>
  The four parts at concrete destinations: a reference together with a deprecated name,
  nothing at all, a reference alone, and the deprecated triple alone.
\<close>

theorem ValidateDestination_presence_and_exclusion_witness:
  "ValidateDestination destBoth True \<noteq> [] \<and>
   ValidateDestination destNone False \<noteq> [] \<and>
   ValidateDestination destRef False = [] \<and>
   ValidateDestination destDeprecated True = []"
  using ValidateDestination_presence_and_exclusion
          [where dest = destBoth and allowDeprecatedFields = True]
        ValidateDestination_presence_and_exclusion
          [where dest = destNone and allowDeprecatedFields = False]
        ValidateDestination_presence_and_exclusion
          [where dest = destRef and allowDeprecatedFields = False and r = objRef]
        ValidateDestination_presence_and_exclusion
          [where dest = destDeprecated]
  by (simp add: destBoth_def destNone_def destRef_def destDeprecated_def objRef_def)

text \<open>
  Claim C6 as the spec states it fails in its last part. A \<open>Ref\<close> that carries name,
  apiVersion and kind and also a namespace, with no deprecated field and no URI, is
  rejected by \<open>checkDisallowedObjectReferenceFields\<close>; and the deprecated triple alone,
  complete and with no URI, is rejected when deprecated fields are not allowed.
\<close>

theorem ValidateDestination_required_fields_counterexample:
  "ValidateDestination
     \<lparr>Ref = Some \<lparr>Kind = ''Service'', Namespace = ''default'', Name = ''sink'', UID = '''',
                   APIVersion = ''v1'', ResourceVersion = '''', FieldPath = ''''\<rparr>,
      DeprecatedAPIVersion = '''', DeprecatedKind = '''', DeprecatedName = '''', URI = None\<rparr>
     True
   = [\<lparr>Message = ''must not set the field(s)'', Paths = [''ref.Namespace''],
        Details = ''only name, apiVersion and kind are supported fields''\<rparr>] \<and>
   ValidateDestination
     \<lparr>Ref = None, DeprecatedAPIVersion = ''v1'', DeprecatedKind = ''Service'',
      DeprecatedName = ''sink'', URI = None\<rparr>
     False \<noteq> []"
  by (simp add: ValidateDestination_def validateRefAndURI_def Let_def
      deprecatedObjectReference_def deprecatedFieldErrors_def ViaField_def
      IsValidObjectReference_def checkRequiredObjectReferenceFields_def
      checkDisallowedObjectReferenceFields_def disallowedFields_def Also_def
      ErrMissingField_def ErrDisallowedFields_def ErrInvalidValue_def flatten_def)

text \<open>
  Claim C8. \<open>GetRef\<close> returns \<open>dest.Ref\<close> whenever it is set, whatever the deprecated
  fields hold; with \<open>Ref\<close> nil and some deprecated field non-empty it returns the object
  reference built from the three deprecated fields; with nothing set, and on a nil
  receiver, it returns nil.
\<close>

theorem GetRef_precedence:
  "(Ref d = Some r \<longrightarrow> GetRef (Some d) = Some r) \<and>
   (Ref d = None \<and>
      (DeprecatedAPIVersion d \<noteq> '''' \<or> DeprecatedKind d \<noteq> '''' \<or> DeprecatedName d \<noteq> '''')
      \<longrightarrow> GetRef (Some d) =
            Some \<lparr>Kind = DeprecatedKind d, Namespace = '''', Name = DeprecatedName d,
                   UID = '''', APIVersion = DeprecatedAPIVersion d, ResourceVersion = '''',
                   FieldPath = ''''\<rparr>) \<and>
   (Ref d = None \<and> DeprecatedAPIVersion d = '''' \<and> DeprecatedKind d = '''' \<and>
      DeprecatedName d = '''' \<longrightarrow> GetRef (Some d) = None) \<and>
   GetRef None = None"
  by (auto simp: GetRef_def deprecatedObjectReference_def)

theorem GetRef_precedence_witness:
  "GetRef (Some destBoth) = Some objRef \<and>
   GetRef (Some destKindOnly) =
     Some \<lparr>Kind = ''Service'', Namespace = '''', Name = '''', UID = '''', APIVersion = '''',
            ResourceVersion = '''', FieldPath = ''''\<rparr> \<and>
   GetRef (Some destNone) = None"
  using GetRef_precedence [where d = destBoth and r = objRef]
        GetRef_precedence [where d = destKindOnly]
        GetRef_precedence [where d = destNone]
  by (simp add: destBoth_def destKindOnly_def destNone_def)

section \<open>Source: scaler defaults and readiness\<close>

text \<open>
  Claim C9. \<open>SetDefault\<close> is idempotent on every receiver, nil included, and on a
  non-nil receiver it leaves \<open>Class\<close>, \<open>MinScale\<close> and \<open>MaxScale\<close> as they were when
  they were already set (a non-empty class, a non-nil pointer).
\<close>

theorem SetDefault_idempotent:
  "SetDefault (SetDefault ss) = SetDefault ss \<and>
   SetDefault None = None \<and>
   (\<exists>s'. SetDefault (Some s) = Some s' \<and>
      (Class s \<noteq> '''' \<longrightarrow> Class s' = Class s) \<and>
      (MinScale s \<noteq> None \<longrightarrow> MinScale s' = MinScale s) \<and>
      (MaxScale s \<noteq> None \<longrightarrow> MaxScale s' = MaxScale s))"
proof (intro conjI)
  show "SetDefault (SetDefault ss) = SetDefault ss"
    by (cases ss) (auto simp: SetDefault_def Let_def defaultScalerClass_def ScalerClassKeda_def)
  show "SetDefault None = None"
    by (simp add: SetDefault_def)
  show "\<exists>s'. SetDefault (Some s) = Some s' \<and>
      (Class s \<noteq> '''' \<longrightarrow> Class s' = Class s) \<and>
      (MinScale s \<noteq> None \<longrightarrow> MinScale s' = MinScale s) \<and>
      (MaxScale s \<noteq> None \<longrightarrow> MaxScale s' = MaxScale s)"
    by (simp add: SetDefault_def Let_def)
qed

theorem SetDefault_idempotent_witness:
  "Class scalerSet \<noteq> '''' \<and> MinScale scalerSet \<noteq> None \<and> MaxScale scalerSet \<noteq> None \<and>
   (\<exists>s'. SetDefault (Some scalerSet) = Some s' \<and> Class s' = ''ksvc'' \<and>
      MinScale s' = Some 2 \<and> MaxScale s' = Some 5)"
  using SetDefault_idempotent [where s = scalerSet]
  by (simp add: scalerSet_def)

lemma IsReady_loop_first:
  "IsReady_loop cs \<longleftrightarrow>
     (\<exists>pre c post. cs = pre @ c # post \<and>
        (\<forall>p\<in>set pre. Type p \<noteq> ConditionReady \<and> Type p \<noteq> ConditionSucceeded) \<and>
        (Type c = ConditionReady \<or> Type c = ConditionSucceeded) \<and> IsTrue c)"
  (is "_ \<longleftrightarrow> ?first cs")
proof (induction cs)
  case Nil
  then show ?case by simp
next
  case (Cons a cs)
  show ?case
  proof (cases "Type a = ConditionReady \<or> Type a = ConditionSucceeded")
    case True
    have "?first (a # cs)" if "IsTrue a"
      using True that by (intro exI[of _ "[]"] exI[of _ a] exI[of _ cs]) simp
    moreover have "IsTrue a" if "?first (a # cs)"
    proof -
      from that obtain pre c post where h: "a # cs = pre @ c # post"
        "\<forall>p\<in>set pre. Type p \<noteq> ConditionReady \<and> Type p \<noteq> ConditionSucceeded" "IsTrue c"
        by blast
      with True show ?thesis by (cases pre) auto
    qed
    ultimately show ?thesis using True by auto
  next
    case False
    have "?first (a # cs) \<longleftrightarrow> ?first cs"
    proof
      assume "?first (a # cs)"
      then obtain pre c post where h: "a # cs = pre @ c # post"
        "\<forall>p\<in>set pre. Type p \<noteq> ConditionReady \<and> Type p \<noteq> ConditionSucceeded"
        "Type c = ConditionReady \<or> Type c = ConditionSucceeded" "IsTrue c"
        by blast
      then obtain pre' where "pre = a # pre'"
        using False by (cases pre) auto
      with h show "?first cs" by auto
    next
      assume "?first cs"
      then obtain pre c post where h: "cs = pre @ c # post"
        "\<forall>p\<in>set pre. Type p \<noteq> ConditionReady \<and> Type p \<noteq> ConditionSucceeded"
        "Type c = ConditionReady \<or> Type c = ConditionSucceeded" "IsTrue c"
        by blast
      show "?first (a # cs)"
        using h False by (intro exI[of _ "a # pre"] exI[of _ c] exI[of _ post]) simp
    qed
    with Cons False show ?thesis by simp
  qed
qed

lemma IsReady_loop_none:
  "\<forall>c\<in>set cs. Type c \<noteq> ConditionReady \<and> Type c \<noteq> ConditionSucceeded \<Longrightarrow> \<not> IsReady_loop cs"
  by (induction cs) auto

text \<open>
  Claim C10. On a non-nil receiver \<open>IsReady\<close> returns true exactly when the condition
  list splits into conditions that are neither Ready nor Succeeded, then a condition of
  type Ready or Succeeded whose status is true, then anything: the first condition of a
  happy type decides. When no condition has either type the answer is false.
\<close>

theorem IsReady_first_happy_condition:
  "IsReady (Some ss) =
     Inr (\<exists>pre c post. Conditions ss = pre @ c # post \<and>
            (\<forall>p\<in>set pre. Type p \<noteq> ConditionReady \<and> Type p \<noteq> ConditionSucceeded) \<and>
            (Type c = ConditionReady \<or> Type c = ConditionSucceeded) \<and> IsTrue c) \<and>
   ((\<forall>c\<in>set (Conditions ss). Type c \<noteq> ConditionReady \<and> Type c \<noteq> ConditionSucceeded)
      \<longrightarrow> IsReady (Some ss) = Inr False)"
  using IsReady_loop_first [of "Conditions ss"] IsReady_loop_none [of "Conditions ss"]
  by (simp add: IsReady_def)

theorem IsReady_first_happy_condition_witness:
  "IsReady (Some statusReady) = Inr True \<and> IsReady (Some statusNoHappy) = Inr False"
proof -
  have "\<exists>pre c post. Conditions statusReady = pre @ c # post \<and>
          (\<forall>p\<in>set pre. Type p \<noteq> ConditionReady \<and> Type p \<noteq> ConditionSucceeded) \<and>
          (Type c = ConditionReady \<or> Type c = ConditionSucceeded) \<and> IsTrue c"
    by (intro exI[of _ "[condition ''SinkProvided'' ''False'']"]
              exI[of _ "condition ''Ready'' ''True''"]
              exI[of _ "[condition ''Succeeded'' ''False'']"])
       (simp add: statusReady_def condition_def ConditionReady_def ConditionSucceeded_def
          IsTrue_def)
  then have "IsReady (Some statusReady) = Inr True"
    using IsReady_first_happy_condition [of statusReady] by simp
  moreover have "\<forall>c\<in>set (Conditions statusNoHappy).
                   Type c \<noteq> ConditionReady \<and> Type c \<noteq> ConditionSucceeded"
    by (simp add: statusNoHappy_def condition_def ConditionReady_def ConditionSucceeded_def)
  then have "IsReady (Some statusNoHappy) = Inr False"
    using IsReady_first_happy_condition [of statusNoHappy] by blast
  ultimately show ?thesis by simp
qed

section \<open>The Stackdriver dispatch\<close>

subsection \<open>Tags and their map\<close>

lemma GetTagsMap_snoc:
  "GetTagsMap (tags @ [t]) = (GetTagsMap tags)(Key t \<mapsto> Value t)"
  by (simp add: GetTagsMap_def)

lemma GetTagsMap_None_iff:
  "GetTagsMap tags k = None \<longleftrightarrow> k \<notin> Key ` set tags"
proof (induction tags rule: rev_induct)
  case Nil
  then show ?case by (simp add: GetTagsMap_def)
next
  case (snoc t tags)
  then show ?case by (auto simp: GetTagsMap_snoc)
qed

lemma GetTagsMap_Some:
  "GetTagsMap tags k = Some v \<Longrightarrow> \<exists>t\<in>set tags. Key t = k \<and> Value t = v"
proof (induction tags rule: rev_induct)
  case Nil
  then show ?case by (simp add: GetTagsMap_def)
next
  case (snoc t tags)
  then show ?case by (auto simp: GetTagsMap_snoc split: if_splits)
qed

lemma ValueOrUnknown_absent:
  "k \<notin> Key ` set tags \<Longrightarrow> ValueOrUnknown k (GetTagsMap tags) = ''unknown''"
  using GetTagsMap_None_iff [of tags k]
  by (simp add: ValueOrUnknown_def ValueUnknown_def)

lemma ValueOrUnknown_present:
  assumes "t \<in> set tags"
    and "\<forall>t'\<in>set tags. Key t' = Key t \<longrightarrow> Value t' = Value t"
  shows "ValueOrUnknown (Key t) (GetTagsMap tags) = Value t"
proof (cases "GetTagsMap tags (Key t)")
  case None
  then have "Key t \<notin> Key ` set tags"
    using GetTagsMap_None_iff by blast
  with assms(1) show ?thesis by blast
next
  case (Some v)
  then obtain u where "u \<in> set tags" "Key u = Key t" "Value u = v"
    using GetTagsMap_Some by blast
  with assms(2) have "v = Value t" by blast
  with Some show ?thesis
    by (simp add: ValueOrUnknown_def)
qed

text \<open>
  What a label read from the tags holds: \<open>unknown\<close> when no tag has the key, and the
  value of a tag with the key when every tag with that key carries the same value (as in
  a tag set, where a key occurs once).
\<close>

lemma ValueOrUnknown_GetTagsMap:
  "(k \<notin> Key ` set tags \<longrightarrow> ValueOrUnknown k (GetTagsMap tags) = ''unknown'') \<and>
   (\<forall>t\<in>set tags. Key t = k \<and> (\<forall>t'\<in>set tags. Key t' = k \<longrightarrow> Value t' = Value t)
      \<longrightarrow> ValueOrUnknown k (GetTagsMap tags) = Value t)"
  using ValueOrUnknown_absent ValueOrUnknown_present by blast

subsection \<open>The four branches\<close>

lemma dispatch_revision:
  "viewMeasureName view = Inr name \<Longrightarrow>
   path_Join [metricTypePrefix, name] \<in> KnativeRevisionMetrics mk \<Longrightarrow>
   getMonitoredResourceFunc mk metricTypePrefix gm view tags =
     GetKnativeRevisionMonitoredResource mk view tags gm"
  by (simp add: getMonitoredResourceFunc_def)

lemma dispatch_broker:
  "viewMeasureName view = Inr name \<Longrightarrow>
   path_Join [metricTypePrefix, name] \<notin> KnativeRevisionMetrics mk \<Longrightarrow>
   path_Join [metricTypePrefix, name] \<in> KnativeBrokerMetrics \<Longrightarrow>
   getMonitoredResourceFunc mk metricTypePrefix gm view tags =
     GetKnativeBrokerMonitoredResource mk view tags gm"
  by (simp add: getMonitoredResourceFunc_def)

lemma dispatch_trigger:
  "viewMeasureName view = Inr name \<Longrightarrow>
   path_Join [metricTypePrefix, name] \<notin> KnativeRevisionMetrics mk \<Longrightarrow>
   path_Join [metricTypePrefix, name] \<in> KnativeTriggerMetrics \<union> KnativeImporterMetrics \<Longrightarrow>
   getMonitoredResourceFunc mk metricTypePrefix gm view tags =
     GetKnativeTriggerMonitoredResource mk view tags gm"
  by (auto simp: getMonitoredResourceFunc_def KnativeBrokerMetrics_def
      KnativeTriggerMetrics_def KnativeImporterMetrics_def)

lemma dispatch_global:
  "viewMeasureName view = Inr name \<Longrightarrow>
   path_Join [metricTypePrefix, name] \<notin> KnativeRevisionMetrics mk \<Longrightarrow>
   path_Join [metricTypePrefix, name] \<notin> KnativeBrokerMetrics \<Longrightarrow>
   path_Join [metricTypePrefix, name] \<notin> KnativeTriggerMetrics \<Longrightarrow>
   path_Join [metricTypePrefix, name] \<notin> KnativeImporterMetrics \<Longrightarrow>
   getMonitoredResourceFunc mk metricTypePrefix gm view tags =
     Inr (getGlobalMonitoredResource view tags)"
  by (simp add: getMonitoredResourceFunc_def)

lemma path_Join_eventing:
  "path_Join [''knative.dev/eventing/importer'', ''event_count''] =
     ''knative.dev/eventing/importer/event_count''"
  "path_Join [''knative.dev/eventing/trigger'', ''event_count''] =
     ''knative.dev/eventing/trigger/event_count''"
  "path_Join [''knative.dev/eventing/broker'', ''event_count''] =
     ''knative.dev/eventing/broker/event_count''"
  by (simp_all add: path_Join_def path_Clean_def cleanStep_def)

lemma path_Join_serving:
  "path_Join [''knative.dev/serving/activator'', ''request_count''] =
     ''knative.dev/serving/activator/request_count''"
  "path_Join [''unsupported/activator'', ''request_count''] =
     ''unsupported/activator/request_count''"
  by (simp_all add: path_Join_def path_Clean_def cleanStep_def)

lemma viewMeasureName_testView: "viewMeasureName (Some (testView n)) = Inr n"
  by (simp add: viewMeasureName_def testView_def)

text \<open>
  Claim C1 fails on the code. For a view of the importer metric
  \<open>knative.dev/eventing/importer/event_count\<close> the dispatch calls
  \<open>GetKnativeTriggerMonitoredResource\<close>: the resource is a \<open>KnativeTrigger\<close>, its type
  is \<open>knative_trigger\<close> and not \<open>knative_importer\<close>, its labels are the eight trigger
  labels, with neither \<open>importer_name\<close> nor \<open>importer_kind\<close> among them, and the two
  importer tags stay in the returned tag list.
\<close>

theorem importer_metric_yields_trigger_resource:
  "getMonitoredResourceFunc exampleKeys ''knative.dev/eventing/importer''
     (Some testGcpMetadata) (Some (testView ''event_count'')) importerTags
   = Inr ([tg ''importer_name'' ''test-importer'', tg ''importer_kind'' ''test-kind''],
          Trigger \<lparr>kt_Project = ''test-project'', kt_Location = ''test-location'',
                   kt_ClusterName = ''test-cluster'', kt_NamespaceName = ''test-ns'',
                   kt_TriggerName = ''unknown'', kt_BrokerName = ''unknown'',
                   kt_TypeFilterAttribute = ''unknown'',
                   kt_SourceFilterAttribute = ''unknown''\<rparr>) \<and>
   path_Join [''knative.dev/eventing/importer'', ''event_count''] \<in> KnativeImporterMetrics \<and>
   (\<exists>ts r. getMonitoredResourceFunc exampleKeys ''knative.dev/eventing/importer''
              (Some testGcpMetadata) (Some (testView ''event_count'')) importerTags
            = Inr (ts, r) \<and>
            fst (MonitoredResource exampleKeys r) = ''knative_trigger'' \<and>
            ''importer_name'' \<notin> dom (snd (MonitoredResource exampleKeys r)) \<and>
            ''importer_kind'' \<notin> dom (snd (MonitoredResource exampleKeys r)))"
proof -
  have mt: "path_Join [''knative.dev/eventing/importer'', ''event_count'']
              \<in> KnativeImporterMetrics"
    by (simp add: path_Join_eventing KnativeImporterMetrics_def)
  have notrev: "path_Join [''knative.dev/eventing/importer'', ''event_count'']
                  \<notin> KnativeRevisionMetrics exampleKeys"
    by (simp add: path_Join_eventing exampleKeys_def)
  have "getMonitoredResourceFunc exampleKeys ''knative.dev/eventing/importer''
          (Some testGcpMetadata) (Some (testView ''event_count'')) importerTags
        = GetKnativeTriggerMonitoredResource exampleKeys (Some (testView ''event_count''))
            importerTags (Some testGcpMetadata)"
    using dispatch_trigger [OF viewMeasureName_testView notrev] mt by simp
  also have "\<dots> = Inr ([tg ''importer_name'' ''test-importer'',
                        tg ''importer_kind'' ''test-kind''],
          Trigger \<lparr>kt_Project = ''test-project'', kt_Location = ''test-location'',
                   kt_ClusterName = ''test-cluster'', kt_NamespaceName = ''test-ns'',
                   kt_TriggerName = ''unknown'', kt_BrokerName = ''unknown'',
                   kt_TypeFilterAttribute = ''unknown'',
                   kt_SourceFilterAttribute = ''unknown''\<rparr>)"
    by (simp add: GetKnativeTriggerMonitoredResource_def exampleKeys_def testGcpMetadata_def
        GetTagsMap_def importerTags_def tg_def ValueOrUnknown_def ValueUnknown_def
        KnativeTriggerLabels_def LabelTriggerName_def LabelBrokerName_def)
  finally have res: "getMonitoredResourceFunc exampleKeys ''knative.dev/eventing/importer''
          (Some testGcpMetadata) (Some (testView ''event_count'')) importerTags
        = Inr ([tg ''importer_name'' ''test-importer'', tg ''importer_kind'' ''test-kind''],
          Trigger \<lparr>kt_Project = ''test-project'', kt_Location = ''test-location'',
                   kt_ClusterName = ''test-cluster'', kt_NamespaceName = ''test-ns'',
                   kt_TriggerName = ''unknown'', kt_BrokerName = ''unknown'',
                   kt_TypeFilterAttribute = ''unknown'',
                   kt_SourceFilterAttribute = ''unknown''\<rparr>)" .
  have lab: "fst (MonitoredResource exampleKeys (Trigger kt)) = ''knative_trigger'' \<and>
             ''importer_name'' \<notin> dom (snd (MonitoredResource exampleKeys (Trigger kt))) \<and>
             ''importer_kind'' \<notin> dom (snd (MonitoredResource exampleKeys (Trigger kt)))" for kt
    by (simp add: KnativeTrigger_MonitoredResource_def exampleKeys_def LabelTriggerName_def
        LabelBrokerName_def)
  from res mt lab show ?thesis by simp
qed

text \<open>
  Claim C2 fails on the code for the trigger metrics. At a view of
  \<open>knative.dev/eventing/trigger/event_count\<close> the tags keyed \<open>trigger_filter_type\<close> and
  \<open>trigger_filter_source\<close> are copied into the labels of the \<open>KnativeTrigger\<close> resource
  and are also kept in the returned tag list, because \<open>KnativeTriggerLabels\<close> holds six of
  the eight trigger labels.
\<close>

theorem trigger_filter_tags_are_kept:
  "getMonitoredResourceFunc exampleKeys ''knative.dev/eventing/trigger''
     (Some testGcpMetadata) (Some (testView ''event_count'')) triggerTags
   = Inr ([tg ''trigger_filter_type'' ''dev.knative.foo'',
           tg ''trigger_filter_source'' ''test-source''],
          Trigger \<lparr>kt_Project = ''test-project'', kt_Location = ''test-location'',
                   kt_ClusterName = ''test-cluster'', kt_NamespaceName = ''test-ns'',
                   kt_TriggerName = ''test-trigger'', kt_BrokerName = ''test-broker'',
                   kt_TypeFilterAttribute = ''dev.knative.foo'',
                   kt_SourceFilterAttribute = ''test-source''\<rparr>) \<and>
   path_Join [''knative.dev/eventing/trigger'', ''event_count''] \<in> KnativeTriggerMetrics \<and>
   (\<exists>ts r. getMonitoredResourceFunc exampleKeys ''knative.dev/eventing/trigger''
              (Some testGcpMetadata) (Some (testView ''event_count'')) triggerTags
            = Inr (ts, r) \<and>
            snd (MonitoredResource exampleKeys r) ''trigger_filter_type''
              = Some ''dev.knative.foo'' \<and>
            snd (MonitoredResource exampleKeys r) ''trigger_filter_source''
              = Some ''test-source'' \<and>
            tg ''trigger_filter_type'' ''dev.knative.foo'' \<in> set ts \<and>
            tg ''trigger_filter_source'' ''test-source'' \<in> set ts)"
proof -
  have mt: "path_Join [''knative.dev/eventing/trigger'', ''event_count'']
              \<in> KnativeTriggerMetrics"
    by (simp add: path_Join_eventing KnativeTriggerMetrics_def)
  have notrev: "path_Join [''knative.dev/eventing/trigger'', ''event_count'']
                  \<notin> KnativeRevisionMetrics exampleKeys"
    by (simp add: path_Join_eventing exampleKeys_def)
  have "getMonitoredResourceFunc exampleKeys ''knative.dev/eventing/trigger''
          (Some testGcpMetadata) (Some (testView ''event_count'')) triggerTags
        = GetKnativeTriggerMonitoredResource exampleKeys (Some (testView ''event_count''))
            triggerTags (Some testGcpMetadata)"
    using dispatch_trigger [OF viewMeasureName_testView notrev] mt by simp
  also have "\<dots> = Inr ([tg ''trigger_filter_type'' ''dev.knative.foo'',
           tg ''trigger_filter_source'' ''test-source''],
          Trigger \<lparr>kt_Project = ''test-project'', kt_Location = ''test-location'',
                   kt_ClusterName = ''test-cluster'', kt_NamespaceName = ''test-ns'',
                   kt_TriggerName = ''test-trigger'', kt_BrokerName = ''test-broker'',
                   kt_TypeFilterAttribute = ''dev.knative.foo'',
                   kt_SourceFilterAttribute = ''test-source''\<rparr>)"
    by (simp add: GetKnativeTriggerMonitoredResource_def exampleKeys_def testGcpMetadata_def
        GetTagsMap_def triggerTags_def tg_def ValueOrUnknown_def ValueUnknown_def
        KnativeTriggerLabels_def LabelTriggerName_def LabelBrokerName_def)
  finally have res: "getMonitoredResourceFunc exampleKeys ''knative.dev/eventing/trigger''
          (Some testGcpMetadata) (Some (testView ''event_count'')) triggerTags
        = Inr ([tg ''trigger_filter_type'' ''dev.knative.foo'',
           tg ''trigger_filter_source'' ''test-source''],
          Trigger \<lparr>kt_Project = ''test-project'', kt_Location = ''test-location'',
                   kt_ClusterName = ''test-cluster'', kt_NamespaceName = ''test-ns'',
                   kt_TriggerName = ''test-trigger'', kt_BrokerName = ''test-broker'',
                   kt_TypeFilterAttribute = ''dev.knative.foo'',
                   kt_SourceFilterAttribute = ''test-source''\<rparr>)" .
  have lab: "snd (MonitoredResource exampleKeys (Trigger kt)) ''trigger_filter_type''
               = Some (kt_TypeFilterAttribute kt) \<and>
             snd (MonitoredResource exampleKeys (Trigger kt)) ''trigger_filter_source''
               = Some (kt_SourceFilterAttribute kt)" for kt
    by (simp add: KnativeTrigger_MonitoredResource_def exampleKeys_def LabelTriggerName_def
        LabelBrokerName_def)
  from res mt lab show ?thesis by simp
qed

end
